theory Spec2Isabelle
  imports Complex_Main "HOL-Library.AList"
begin

section \<open>Session keys and recording paths\<close>

text \<open>
  \<^verbatim>\<open>function getStreamKey(userId, challengeNum) { return `${userId}_${challengeNum}`; }\<close>

  Both identifiers are strings (route parameters, or the fields of a socket message put
  through a template literal).
\<close>

type_synonym key = string
type_synonym path = string

definition getStreamKey :: "string \<Rightarrow> string \<Rightarrow> key" where
  "getStreamKey userId challengeNum = userId @ ''_'' @ challengeNum"

text \<open>
  The text of a playlist is a JavaScript string, a sequence of UTF-16 code units, here
  integers: the regular expressions of the routes work on code units, and a file
  read with encoding \<open>'utf8'\<close> may hold any of them. The literals of the source, the route
  parameters and the header values are 8-bit strings; \<open>js\<close> gives their code units.
\<close>

type_synonym ustring = "int list"

definition js :: "string \<Rightarrow> ustring" where
  "js s = map of_char s"

section \<open>The timelapse filter graph\<close>

text \<open>
  The filters handed to the encoder by \<open>generateTimelapse\<close>:
  \<^verbatim>\<open>.videoFilters(['setpts=0.01667*PTS'])\<close> and
  \<^verbatim>\<open>.audioFilters(['atempo=2.0,atempo=2.0,atempo=2.0,atempo=2.0,atempo=1.875'])\<close>.
  The decimal literals are kept as exact fractions: \<open>0.01667 = 1667/100000\<close>,
  \<open>2.0 = 2\<close>, \<open>1.875 = 1875/1000\<close>.
\<close>

datatype vfilter = Setpts rat
datatype afilter = Atempo rat

definition videoFilters :: "vfilter list" where
  "videoFilters = [Setpts (1667 / 100000)]"

definition audioFilters :: "afilter list" where
  "audioFilters = [Atempo 2, Atempo 2, Atempo 2, Atempo 2, Atempo (1875 / 1000)]"

text \<open>
  A \<open>setpts=f*PTS\<close> stage multiplies every presentation timestamp by \<open>f\<close>; an
  \<open>atempo=t\<close> stage plays the audio \<open>t\<close> times faster, and stages in a chain compose
  by multiplication.
\<close>

fun pts_factor :: "vfilter list \<Rightarrow> rat" where
  "pts_factor [] = 1"
| "pts_factor (Setpts f # fs) = f * pts_factor fs"

fun tempo_factor :: "afilter list \<Rightarrow> rat" where
  "tempo_factor [] = 1"
| "tempo_factor (Atempo t # fs) = t * tempo_factor fs"

definition video_speedup :: "vfilter list \<Rightarrow> rat" where
  "video_speedup fs = 1 / pts_factor fs"

definition atempo_in_range :: "afilter \<Rightarrow> bool" where
  "atempo_in_range f = (case f of Atempo t \<Rightarrow> 1 / 2 \<le> t \<and> t \<le> 2)"

section \<open>Library functions the server calls\<close>

text \<open>
  Functions of Node's standard library that the code calls and whose text is not part of
  the repository are parameters of the model: \<open>path.join\<close>, the base64 decoder
  \<open>Buffer.from(chunk, 'base64')\<close>, the UTF-8 decoder behind
  \<open>fs.readFileSync(p, 'utf8')\<close>, and the constant \<open>RECORDINGS_DIR\<close>
  (\<open>path.join(__dirname, 'recordings')\<close>). A byte is a \<^typ>\<open>char\<close> (8 bits), so a file's
  content is a \<^typ>\<open>string\<close>; what \<open>readFileSync\<close> returns for it is a
  \<^typ>\<open>ustring\<close>.
\<close>

record lib =
  path_join :: "path \<Rightarrow> string \<Rightarrow> path"
  buffer_from_base64 :: "string \<Rightarrow> string"
  utf8_decode :: "string \<Rightarrow> ustring"
  RECORDINGS_DIR :: path

definition getRecordingPath :: "lib \<Rightarrow> string \<Rightarrow> string \<Rightarrow> path" where
  "getRecordingPath L userId challengeNum =
     (let streamKey = getStreamKey userId challengeNum
      in path_join L (RECORDINGS_DIR L) streamKey)"

section \<open>The server state\<close>

text \<open>
  The three module-level maps (\<open>activeStreams\<close>, \<open>ffmpegProcesses\<close>,
  \<open>timelapseProcesses\<close>) are association lists in insertion order, as a JavaScript
  \<open>Map\<close> is. Objects that the maps and closures refer to live in explicit stores and are
  referred to by their index: the write streams, and the encoder commands built with
  \<open>ffmpeg(inputFile)\<close>. Pending \<open>setTimeout\<close> callbacks, the socket rooms, the messages
  emitted to sockets and the HTTP responses sent are part of the state, so that a handler's
  effects can be read off the state it returns. Console output is left out. The filesystem is
  the set of directories created so far and a map from paths to files, each with its
  modification time (in milliseconds) and its content.

  In the definitions below, \<open>uid\<close>, \<open>cnum\<close> and \<open>rpath\<close> stand for the source's
  \<open>userId\<close>, \<open>challengeNum\<close> and \<open>recordingPath\<close>, which are field names of the session
  record here.
\<close>

record stream_info =
  socketId :: string
  userId :: string
  challengeNum :: string
  startTime :: nat
  recordingPath :: path
  writeStream :: nat

record write_stream =
  ws_path :: path
  ws_ended :: bool

record fsfile =
  mtime :: nat
  content :: string

datatype message = StreamReady key | StreamStopped

text \<open>
  What the routes read from a request: the two route parameters, the
  \<open>X-Forwarded-Proto\<close> and \<open>Host\<close> headers (absent headers are \<open>None\<close>),
  \<open>req.secure\<close> and \<open>req.protocol\<close>; \<open>res_id\<close> names the response object \<open>res\<close> of
  the request. A response is a status code and a body: one of the three JSON objects the
  routes build, or the playlist string handed to \<open>res.send\<close>.
\<close>

record request =
  res_id :: nat
  param_userId :: string
  param_challengeNum :: string
  x_forwarded_proto :: "string option"
  req_secure :: bool
  req_protocol :: string
  req_host :: "string option"

datatype body =
    RecordingNotFound string string
  | Generating string string
  | GenerationFailed string string string
  | Playlist ustring

record response =
  status :: nat
  body :: body

text \<open>
  Closures are kept as data holding the variables they capture. An encoder command has at
  most one \<open>'error'\<close> listener and one \<open>'end'\<close> listener; the \<open>'start'\<close> and
  \<open>'progress'\<close> listeners only log. The command options other than input and output do
  not influence control flow and are left out.
\<close>

datatype error_listener =
    LiveError key path path path
  | TimelapseError key request

datatype end_listener =
    LiveEnd key
  | TimelapseEnd key path request

datatype proc_state = Running | Ended | Failed

record command =
  cmd_input :: path
  cmd_output :: path
  on_error :: "error_listener option"
  on_end :: "end_listener option"
  cmd_state :: proc_state
  cmd_signalled :: bool

datatype timer_callback =
    WarmUp key path path path
  | Backoff key path path path

record server =
  activeStreams :: "(key \<times> stream_info) list"
  ffmpegProcesses :: "(key \<times> nat) list"
  timelapseProcesses :: "(key \<times> nat) list"
  commands :: "command list"
  writeStreams :: "write_stream list"
  files :: "(path \<times> fsfile) list"
  dirs :: "path list"
  timers :: "(nat \<times> timer_callback) list"
  rooms :: "(string \<times> key) list"
  emitted :: "(string \<times> message) list"
  responses :: "(nat \<times> response) list"
  crashed :: bool

definition init_server :: "(path \<times> fsfile) list \<Rightarrow> path list \<Rightarrow> server" where
  "init_server fs ds =
     \<lparr>activeStreams = [], ffmpegProcesses = [], timelapseProcesses = [], commands = [],
      writeStreams = [], files = fs, dirs = ds, timers = [], rooms = [], emitted = [],
      responses = [], crashed = False\<rparr>"

definition has :: "('k \<times> 'v) list \<Rightarrow> 'k \<Rightarrow> bool" where
  "has m k = (map_of m k \<noteq> None)"

definition existsSync :: "server \<Rightarrow> path \<Rightarrow> bool" where
  "existsSync s p = has (files s) p"

subsection \<open>Write streams\<close>

text \<open>
  \<open>fs.createWriteStream(p)\<close> opens \<open>p\<close> with flag \<open>'w'\<close>: the file is created, or
  truncated when it exists. \<open>write\<close> appends at the end. A \<open>write\<close> after \<open>end\<close>
  makes the stream emit \<open>'error'\<close>; no listener is attached to it, so the event is an
  uncaught exception. Buffering is not modelled: a write reaches the file at once. Stream
  indices come from \<open>createWriteStream\<close> only, so an index outside the store does not
  occur; \<open>ws_write\<close> and \<open>ws_end\<close> leave the state alone there.
\<close>

definition createWriteStream :: "nat \<Rightarrow> path \<Rightarrow> server \<Rightarrow> nat \<times> server" where
  "createWriteStream now p s =
     (length (writeStreams s),
      s\<lparr>writeStreams := writeStreams s @ [\<lparr>ws_path = p, ws_ended = False\<rparr>],
        files := AList.update p \<lparr>mtime = now, content = []\<rparr> (files s)\<rparr>)"

definition file_content :: "server \<Rightarrow> path \<Rightarrow> string" where
  "file_content s p = (case map_of (files s) p of None \<Rightarrow> [] | Some f \<Rightarrow> content f)"

definition ws_write :: "nat \<Rightarrow> nat \<Rightarrow> string \<Rightarrow> server \<Rightarrow> server" where
  "ws_write now h buffer s =
     (if h < length (writeStreams s) then
        (let w = writeStreams s ! h in
         if ws_ended w then s\<lparr>crashed := True\<rparr>
         else s\<lparr>files := AList.update (ws_path w)
                 \<lparr>mtime = now, content = file_content s (ws_path w) @ buffer\<rparr> (files s)\<rparr>)
      else s)"

definition ws_end :: "nat \<Rightarrow> server \<Rightarrow> server" where
  "ws_end h s =
     (if h < length (writeStreams s) then
        s\<lparr>writeStreams := (writeStreams s)[h := (writeStreams s ! h)\<lparr>ws_ended := True\<rparr>]\<rparr>
      else s)"

subsection \<open>Encoder commands\<close>

text \<open>
  \<open>run()\<close> starts the child process; the command stays \<open>Running\<close> until it emits
  \<open>'end'\<close> (\<open>Ended\<close>) or \<open>'error'\<close> (\<open>Failed\<close>). \<open>kill('SIGTERM')\<close> only sends the
  signal.
\<close>

definition spawn :: "path \<Rightarrow> path \<Rightarrow> error_listener option \<Rightarrow> end_listener option \<Rightarrow> server
    \<Rightarrow> nat \<times> server" where
  "spawn inp outp onerr onend s =
     (length (commands s),
      s\<lparr>commands := commands s @
           [\<lparr>cmd_input = inp, cmd_output = outp, on_error = onerr, on_end = onend,
             cmd_state = Running, cmd_signalled = False\<rparr>]\<rparr>)"

definition kill :: "nat \<Rightarrow> server \<Rightarrow> server" where
  "kill pid s =
     (if pid < length (commands s) then
        s\<lparr>commands := (commands s)[pid := (commands s ! pid)\<lparr>cmd_signalled := True\<rparr>]\<rparr>
      else s)"

definition respond :: "request \<Rightarrow> nat \<Rightarrow> body \<Rightarrow> server \<Rightarrow> server" where
  "respond req st b s = s\<lparr>responses := responses s @ [(res_id req, \<lparr>status = st, body = b\<rparr>)]\<rparr>"

section \<open>Manifest rewriting\<close>

subsection \<open>The two regular expressions\<close>

text \<open>
  The routes rewrite a playlist with
  \<^verbatim>\<open>playlistContent.replace(/^(segment_\d+\.ts)$/gm, baseUrl + '$1')\<close> followed by
  \<^verbatim>\<open>playlistContent.replace(/^([^\/\n]+segment_\d+\.ts)$/gm, baseUrl + '$1')\<close>
  (with \<open>timelapse_segment_\<close> on the timelapse route). A position in the subject string is
  given by the text before it (\<open>pre\<close>) and the text from it on (\<open>rest\<close>). With flag
  \<open>m\<close>, \<open>^\<close> holds at the start of the string and after a line terminator, \<open>$\<close> at
  its end and before a line terminator; the line terminators are LF, CR, U+2028 and
  U+2029. \<open>\d\<close> is an ASCII digit.
\<close>

definition is_line_terminator :: "int \<Rightarrow> bool" where
  "is_line_terminator c = (c = 0x0A \<or> c = 0x0D \<or> c = 0x2028 \<or> c = 0x2029)"

definition is_digit :: "int \<Rightarrow> bool" where
  "is_digit c = (0x30 \<le> c \<and> c \<le> 0x39)"

definition at_line_start :: "ustring \<Rightarrow> bool" where
  "at_line_start pre = (pre = [] \<or> is_line_terminator (last pre))"

definition at_line_end :: "ustring \<Rightarrow> bool" where
  "at_line_end rest = (case rest of [] \<Rightarrow> True | c # _ \<Rightarrow> is_line_terminator c)"

fun strip_prefix :: "ustring \<Rightarrow> ustring \<Rightarrow> ustring option" where
  "strip_prefix [] s = Some s"
| "strip_prefix (p # ps) [] = None"
| "strip_prefix (p # ps) (c # cs) = (if p = c then strip_prefix ps cs else None)"

text \<open>
  \<open>name\d+\.ts$\<close> at the front of \<open>rest\<close>; the result is the length of the match.
  \<open>\d+\<close> is greedy, and giving digits back cannot help, since a digit is not a dot.
\<close>

definition match_file :: "ustring \<Rightarrow> ustring \<Rightarrow> nat option" where
  "match_file name rest =
     (case strip_prefix name rest of
        None \<Rightarrow> None
      | Some r \<Rightarrow>
          (let ds = takeWhile is_digit r in
           if ds = [] then None
           else (case strip_prefix (js ''.ts'') (dropWhile is_digit r) of
                   None \<Rightarrow> None
                 | Some r' \<Rightarrow>
                     if at_line_end r' then Some (length name + length ds + 3) else None)))"

text \<open>\<open>/^(name\d+\.ts)$/m\<close> at a position.\<close>

definition match_bare :: "ustring \<Rightarrow> ustring \<Rightarrow> ustring \<Rightarrow> nat option" where
  "match_bare name pre rest = (if at_line_start pre then match_file name rest else None)"

text \<open>
  \<open>/^([^\/\n]+name\d+\.ts)$/m\<close> at a position: \<open>[^\/\n]+\<close> first takes the longest run
  of code units other than slash (0x2F) and LF, then gives them back one at a time (down
  to one) until the remainder of the pattern matches.
\<close>

definition not_slash_nl :: "int \<Rightarrow> bool" where
  "not_slash_nl c = (c \<noteq> 0x2F \<and> c \<noteq> 0x0A)"

fun backtrack :: "ustring \<Rightarrow> nat \<Rightarrow> ustring \<Rightarrow> nat option" where
  "backtrack name 0 rest = None"
| "backtrack name (Suc k) rest =
     (case match_file name (drop (Suc k) rest) of
        Some n \<Rightarrow> Some (Suc k + n)
      | None \<Rightarrow> backtrack name k rest)"

definition match_prefixed :: "ustring \<Rightarrow> ustring \<Rightarrow> ustring \<Rightarrow> nat option" where
  "match_prefixed name pre rest =
     (if at_line_start pre
      then backtrack name (length (takeWhile not_slash_nl rest)) rest
      else None)"

subsection \<open>Replacement templates\<close>

text \<open>
  The replacement is a string, so it is a template (ECMAScript \<open>GetSubstitution\<close>, no
  named groups): \<open>$$\<close> is a dollar sign, \<open>$&\<close> the match, \<open>$`\<close> the text before it,
  \<open>$'\<close> the text after it, \<open>$n\<close> and \<open>$nn\<close> the capture of that number when such
  a group exists; a two-digit number beyond the number of groups is read as one digit
  followed by a literal digit; any other \<open>$\<close> stands for itself. The code units are
  0x24 for \<open>$\<close>, 0x26 for \<open>&\<close>, 0x60 for the backquote and 0x27 for the quote.
\<close>

definition digit_value :: "int \<Rightarrow> nat" where
  "digit_value c = nat (c - 0x30)"

definition capture_ref :: "ustring list \<Rightarrow> nat \<Rightarrow> ustring \<Rightarrow> ustring" where
  "capture_ref captures index ref =
     (if 1 \<le> index \<and> index \<le> length captures then captures ! (index - 1) else ref)"

fun get_substitution :: "ustring \<Rightarrow> ustring \<Rightarrow> ustring \<Rightarrow> ustring list \<Rightarrow> ustring \<Rightarrow> ustring" where
  "get_substitution matched pre post captures [] = []"
| "get_substitution matched pre post captures [c] = [c]"
| "get_substitution matched pre post captures (c # d # t) =
     (if c \<noteq> 0x24 then c # get_substitution matched pre post captures (d # t)
      else if d = 0x24 then 0x24 # get_substitution matched pre post captures t
      else if d = 0x26 then matched @ get_substitution matched pre post captures t
      else if d = 0x60 then pre @ get_substitution matched pre post captures t
      else if d = 0x27 then post @ get_substitution matched pre post captures t
      else if is_digit d then
        (case t of
           [] \<Rightarrow> capture_ref captures (digit_value d) [c, d]
         | e # t' \<Rightarrow>
             if is_digit e \<and> 10 * digit_value d + digit_value e \<le> length captures
             then capture_ref captures (10 * digit_value d + digit_value e) [c, d, e]
                  @ get_substitution matched pre post captures t'
             else capture_ref captures (digit_value d) [c, d]
                  @ get_substitution matched pre post captures t)
      else c # get_substitution matched pre post captures (d # t))"

subsection \<open>Global replace\<close>

text \<open>
  \<open>String.prototype.replace\<close> with a global regular expression: matches are searched
  from left to right in the original string, each search resuming where the previous
  match ended (one code unit further after an empty match); the text between matches is
  copied. The matcher \<open>m\<close> gives the length of the match at a position, and the only
  capture group of both expressions spans the whole match.
\<close>

function replace_global ::
    "(ustring \<Rightarrow> ustring \<Rightarrow> nat option) \<Rightarrow> ustring \<Rightarrow> ustring \<Rightarrow> ustring \<Rightarrow> ustring" where
  "replace_global m template pre rest =
     (case m pre rest of
        Some n \<Rightarrow>
          (let matched = take n rest;
               out = get_substitution matched pre (drop n rest) [matched] template
           in if matched = [] then
                (case rest of
                   [] \<Rightarrow> out
                 | c # cs \<Rightarrow> out @ c # replace_global m template (pre @ [c]) cs)
              else out @ replace_global m template (pre @ matched) (drop n rest))
      | None \<Rightarrow>
          (case rest of
             [] \<Rightarrow> []
           | c # cs \<Rightarrow> c # replace_global m template (pre @ [c]) cs))"
  by pat_completeness auto
termination
  by (relation "measure (\<lambda>(m, template, pre, rest). length rest)") auto

declare replace_global.simps [simp del]

definition rewrite_playlist :: "ustring \<Rightarrow> ustring \<Rightarrow> ustring \<Rightarrow> ustring" where
  "rewrite_playlist name baseUrl playlistContent =
     (let playlistContent1 =
            replace_global (match_bare name) (baseUrl @ js ''$1'') [] playlistContent
      in replace_global (match_prefixed name) (baseUrl @ js ''$1'') [] playlistContent1)"

subsection \<open>Scheme and base URL\<close>

text \<open>
  \<open>getProtocol\<close>: the first comma-separated value of \<open>X-Forwarded-Proto\<close>, trimmed, when
  the header is present and not empty; otherwise \<open>https\<close> for a secure connection and
  \<open>req.protocol\<close> for any other. A missing \<open>Host\<close> header prints as \<open>undefined\<close> in
  the template literal.
\<close>

definition is_space :: "char \<Rightarrow> bool" where
  "is_space c = (c \<in> set [CHR 0x09, CHR 0x0A, CHR 0x0B, CHR 0x0C, CHR 0x0D, CHR 0x20, CHR 0xA0])"

definition trim :: "string \<Rightarrow> string" where
  "trim s = rev (dropWhile is_space (rev (dropWhile is_space s)))"

definition getProtocol :: "request \<Rightarrow> string" where
  "getProtocol req =
     (case x_forwarded_proto req of
        Some forwardedProto \<Rightarrow>
          if forwardedProto \<noteq> [] then trim (takeWhile (\<lambda>c. c \<noteq> CHR '','') forwardedProto)
          else if req_secure req then ''https'' else req_protocol req
      | None \<Rightarrow> if req_secure req then ''https'' else req_protocol req)"

definition host_text :: "request \<Rightarrow> string" where
  "host_text req = (case req_host req of None \<Rightarrow> ''undefined'' | Some h \<Rightarrow> h)"

definition baseUrl :: "request \<Rightarrow> string" where
  "baseUrl req =
     getProtocol req @ ''://'' @ host_text req @ ''/recordings/''
       @ param_userId req @ ''_'' @ param_challengeNum req @ ''/''"

section \<open>The timelapse job gate\<close>

text \<open>
  The callback that the timelapse route passes to \<open>generateTimelapse\<close>: an error
  becomes a 202 when its message is the in-progress message and a 500 otherwise; a
  playlist path is read as UTF-8, rewritten and sent. \<open>readFileSync\<close> throws when the file is
  missing; that can only happen when the callback runs from the encoder's \<open>'end'\<close>
  listener, where nothing catches the exception.
\<close>

definition in_progress_message :: string where
  "in_progress_message = ''Timelapse generation already in progress''"

definition timelapse_callback :: "lib \<Rightarrow> request \<Rightarrow> string + path \<Rightarrow> server \<Rightarrow> server" where
  "timelapse_callback L req result s =
     (case result of
        Inl message \<Rightarrow>
          if message = in_progress_message
          then respond req 202 (Generating (param_userId req) (param_challengeNum req)) s
          else respond req 500
                 (GenerationFailed message (param_userId req) (param_challengeNum req)) s
      | Inr playlistPath \<Rightarrow>
          (case map_of (files s) playlistPath of
             None \<Rightarrow> s\<lparr>crashed := True\<rparr>
           | Some f \<Rightarrow>
               respond req 200
                 (Playlist (rewrite_playlist (js ''timelapse_segment_'') (js (baseUrl req))
                            (utf8_decode L (content f)))) s))"

text \<open>
  \<open>generateTimelapse(userId, challengeNum, callback)\<close> (the identifiers are \<open>uid\<close>
  and \<open>cnum\<close> below, the recording path \<open>rpath\<close>), with the checks in the order of
  the source: missing input, cached playlist at least as new as the input, job already
  running, and otherwise a new encoder command registered in \<open>timelapseProcesses\<close>.
\<close>

definition generateTimelapse :: "lib \<Rightarrow> string \<Rightarrow> string \<Rightarrow> request \<Rightarrow> server \<Rightarrow> server" where
  "generateTimelapse L uid cnum req s =
     (let streamKey = getStreamKey uid cnum;
          rpath = getRecordingPath L uid cnum;
          inputFile = path_join L rpath ''input.webm'';
          timelapsePlaylist = path_join L rpath ''timelapse.m3u8''
      in case map_of (files s) inputFile of
           None \<Rightarrow> timelapse_callback L req (Inl ''Input file not found'') s
         | Some inputStats \<Rightarrow>
             (case map_of (files s) timelapsePlaylist of
                Some timelapseStats \<Rightarrow>
                  if mtime timelapseStats \<ge> mtime inputStats
                  then timelapse_callback L req (Inr timelapsePlaylist) s
                  else if has (timelapseProcesses s) streamKey
                  then timelapse_callback L req (Inl in_progress_message) s
                  else (let (pid, s1) = spawn inputFile timelapsePlaylist
                                          (Some (TimelapseError streamKey req))
                                          (Some (TimelapseEnd streamKey timelapsePlaylist req)) s
                        in s1\<lparr>timelapseProcesses :=
                                AList.update streamKey pid (timelapseProcesses s1)\<rparr>)
              | None \<Rightarrow>
                  if has (timelapseProcesses s) streamKey
                  then timelapse_callback L req (Inl in_progress_message) s
                  else (let (pid, s1) = spawn inputFile timelapsePlaylist
                                          (Some (TimelapseError streamKey req))
                                          (Some (TimelapseEnd streamKey timelapsePlaylist req)) s
                        in s1\<lparr>timelapseProcesses :=
                                AList.update streamKey pid (timelapseProcesses s1)\<rparr>)))"

text \<open>\<open>GET /timelapse/:userId/:challengeNum\<close>.\<close>

definition get_timelapse :: "lib \<Rightarrow> request \<Rightarrow> server \<Rightarrow> server" where
  "get_timelapse L req s =
     (let uid = param_userId req;
          cnum = param_challengeNum req;
          rpath = getRecordingPath L uid cnum;
          inputFile = path_join L rpath ''input.webm'';
          timelapsePlaylist = path_join L rpath ''timelapse.m3u8''
      in if \<not> existsSync s inputFile
         then respond req 404 (RecordingNotFound uid cnum) s
         else (case map_of (files s) timelapsePlaylist of
                 Some f \<Rightarrow>
                   respond req 200
                     (Playlist (rewrite_playlist (js ''timelapse_segment_'') (js (baseUrl req))
                            (utf8_decode L (content f)))) s
               | None \<Rightarrow> generateTimelapse L uid cnum req s))"

text \<open>\<open>GET /watch/:userId/:challengeNum\<close>.\<close>

definition get_watch :: "lib \<Rightarrow> request \<Rightarrow> server \<Rightarrow> server" where
  "get_watch L req s =
     (let uid = param_userId req;
          cnum = param_challengeNum req;
          rpath = getRecordingPath L uid cnum;
          playlistPath = path_join L rpath ''playlist.m3u8''
      in case map_of (files s) playlistPath of
           None \<Rightarrow> respond req 404 (RecordingNotFound uid cnum) s
         | Some f \<Rightarrow>
             respond req 200 (Playlist (rewrite_playlist (js ''segment_'') (js (baseUrl req))
                         (utf8_decode L (content f)))) s)"

section \<open>Socket handlers\<close>

text \<open>\<open>socket.on('start-stream', ...)\<close>; \<open>now\<close> is \<open>Date.now()\<close>.\<close>

definition start_stream :: "lib \<Rightarrow> nat \<Rightarrow> string \<Rightarrow> string \<Rightarrow> string \<Rightarrow> server \<Rightarrow> server" where
  "start_stream L now sid uid cnum s =
     (let streamKey = getStreamKey uid cnum;
          rpath = getRecordingPath L uid cnum;
          s1 = (if rpath \<in> set (dirs s) then s else s\<lparr>dirs := dirs s @ [rpath]\<rparr>);
          outputPlaylist = path_join L rpath ''playlist.m3u8'';
          inputFile = path_join L rpath ''input.webm'';
          (ws, s2) = createWriteStream now inputFile s1;
          s3 = s2\<lparr>activeStreams := AList.update streamKey
                   \<lparr>socketId = sid, userId = uid, challengeNum = cnum, startTime = now,
                    recordingPath = rpath, writeStream = ws\<rparr> (activeStreams s2)\<rparr>;
          s4 = s3\<lparr>timers := timers s3 @ [(2000, WarmUp streamKey inputFile rpath outputPlaylist)]\<rparr>;
          s5 = s4\<lparr>rooms := List.insert (sid, streamKey) (rooms s4)\<rparr>
      in s5\<lparr>emitted := emitted s5 @ [(sid, StreamReady streamKey)]\<rparr>)"

text \<open>
  \<open>socket.on('stream-chunk', ...)\<close>. The \<open>writeStream\<close> field of a registered session
  is always an object, so the guard \<open>streamInfo && streamInfo.writeStream\<close> is the lookup.
\<close>

definition stream_chunk :: "lib \<Rightarrow> nat \<Rightarrow> string \<Rightarrow> string \<Rightarrow> string \<Rightarrow> server \<Rightarrow> server" where
  "stream_chunk L now uid cnum chunk s =
     (let streamKey = getStreamKey uid cnum
      in case map_of (activeStreams s) streamKey of
           None \<Rightarrow> s
         | Some streamInfo \<Rightarrow>
             (let buffer = buffer_from_base64 L chunk
              in ws_write now (writeStream streamInfo) buffer s))"

text \<open>\<open>socket.on('stop-stream', ...)\<close>.\<close>

definition stop_ffmpeg :: "key \<Rightarrow> server \<Rightarrow> server" where
  "stop_ffmpeg streamKey s =
     (case map_of (ffmpegProcesses s) streamKey of
        None \<Rightarrow> s
      | Some ffmpegProcess \<Rightarrow>
          (let s1 = kill ffmpegProcess s
           in s1\<lparr>ffmpegProcesses := AList.delete streamKey (ffmpegProcesses s1)\<rparr>))"

definition stop_stream :: "string \<Rightarrow> string \<Rightarrow> string \<Rightarrow> server \<Rightarrow> server" where
  "stop_stream sid uid cnum s =
     (let streamKey = getStreamKey uid cnum;
          s1 = (case map_of (activeStreams s) streamKey of
                  None \<Rightarrow> s
                | Some streamInfo \<Rightarrow> ws_end (writeStream streamInfo) s);
          s2 = stop_ffmpeg streamKey s1;
          s3 = s2\<lparr>activeStreams := AList.delete streamKey (activeStreams s2)\<rparr>;
          s4 = s3\<lparr>rooms := removeAll (sid, streamKey) (rooms s3)\<rparr>
      in s4\<lparr>emitted := emitted s4 @ [(sid, StreamStopped)]\<rparr>)"

text \<open>
  \<open>socket.on('disconnect', ...)\<close>: the loop over \<open>activeStreams.entries()\<close>, each
  iteration deleting at most the entry it visits. The socket has left all its rooms.
\<close>

fun teardown :: "string \<Rightarrow> (key \<times> stream_info) list \<Rightarrow> server \<Rightarrow> server" where
  "teardown sid [] s = s"
| "teardown sid ((streamKey, streamInfo) # entries) s =
     (if socketId streamInfo = sid then
        (let s1 = ws_end (writeStream streamInfo) s;
             s2 = stop_ffmpeg streamKey s1;
             s3 = s2\<lparr>activeStreams := AList.delete streamKey (activeStreams s2)\<rparr>
         in teardown sid entries s3)
      else teardown sid entries s)"

definition disconnect :: "string \<Rightarrow> server \<Rightarrow> server" where
  "disconnect sid s =
     teardown sid (activeStreams s) (s\<lparr>rooms := filter (\<lambda>(x, k). x \<noteq> sid) (rooms s)\<rparr>)"

section \<open>Timers and encoder events\<close>

text \<open>
  A pending timer fires: the warm-up callback of \<open>start-stream\<close> spawns the live encoder
  with its listeners and registers it, whatever the registry holds by then; the backoff
  callback spawns the retry command, with no listener at all, when the key is still
  registered, and does nothing otherwise.
\<close>

definition timer_fire :: "nat \<Rightarrow> server \<Rightarrow> server" where
  "timer_fire i s =
     (if i < length (timers s) then
        (let s1 = s\<lparr>timers := take i (timers s) @ drop (Suc i) (timers s)\<rparr>
         in case snd (timers s ! i) of
              WarmUp streamKey inputFile rpath outputPlaylist \<Rightarrow>
                (let (ffmpegProcess, s2) =
                       spawn inputFile outputPlaylist
                         (Some (LiveError streamKey inputFile rpath outputPlaylist))
                         (Some (LiveEnd streamKey)) s1
                 in s2\<lparr>ffmpegProcesses :=
                         AList.update streamKey ffmpegProcess (ffmpegProcesses s2)\<rparr>)
            | Backoff streamKey inputFile rpath outputPlaylist \<Rightarrow>
                if has (activeStreams s1) streamKey then
                  (let (retryProcess, s2) = spawn inputFile outputPlaylist None None s1
                   in s2\<lparr>ffmpegProcesses :=
                           AList.update streamKey retryProcess (ffmpegProcesses s2)\<rparr>)
                else s1)
      else s)"

text \<open>
  A running command emits \<open>'error'\<close> (at most once, after which it is no longer
  running). An emitter without an \<open>'error'\<close> listener throws the error, and nothing
  catches it: the host process ends.
\<close>

definition emit_error :: "lib \<Rightarrow> nat \<Rightarrow> string \<Rightarrow> server \<Rightarrow> server" where
  "emit_error L pid message s =
     (if pid < length (commands s) \<and> cmd_state (commands s ! pid) = Running then
        (let cmd = commands s ! pid;
             s1 = s\<lparr>commands := (commands s)[pid := cmd\<lparr>cmd_state := Failed\<rparr>]\<rparr>
         in case on_error cmd of
              None \<Rightarrow> s1\<lparr>crashed := True\<rparr>
            | Some (LiveError streamKey inputFile rpath outputPlaylist) \<Rightarrow>
                if has (activeStreams s1) streamKey
                then s1\<lparr>timers := timers s1 @ [(2000, Backoff streamKey inputFile rpath outputPlaylist)]\<rparr>
                else s1
            | Some (TimelapseError streamKey req) \<Rightarrow>
                timelapse_callback L req (Inl message)
                  (s1\<lparr>timelapseProcesses := AList.delete streamKey (timelapseProcesses s1)\<rparr>))
      else s)"

text \<open>A running command emits \<open>'end'\<close>.\<close>

definition emit_end :: "lib \<Rightarrow> nat \<Rightarrow> server \<Rightarrow> server" where
  "emit_end L pid s =
     (if pid < length (commands s) \<and> cmd_state (commands s ! pid) = Running then
        (let cmd = commands s ! pid;
             s1 = s\<lparr>commands := (commands s)[pid := cmd\<lparr>cmd_state := Ended\<rparr>]\<rparr>
         in case on_end cmd of
              None \<Rightarrow> s1
            | Some (LiveEnd streamKey) \<Rightarrow> s1
            | Some (TimelapseEnd streamKey timelapsePlaylist req) \<Rightarrow>
                timelapse_callback L req (Inr timelapsePlaylist)
                  (s1\<lparr>timelapseProcesses := AList.delete streamKey (timelapseProcesses s1)\<rparr>))
      else s)"

section \<open>The event loop\<close>

text \<open>
  Handlers run to completion, one event at a time. Besides the messages, requests, timers
  and encoder events, the encoder processes write their output files (\<open>FsWrite\<close>). Once
  the host process has ended, nothing happens any more.
\<close>

datatype event =
    StartStream nat string string string
  | StreamChunk nat string string string
  | StopStream string string string
  | Disconnect string
  | TimerFire nat
  | EmitError nat string
  | EmitEnd nat
  | GetWatch request
  | GetTimelapse request
  | FsWrite path fsfile

definition step :: "lib \<Rightarrow> event \<Rightarrow> server \<Rightarrow> server" where
  "step L e s =
     (if crashed s then s
      else case e of
             StartStream now sid uid cnum \<Rightarrow> start_stream L now sid uid cnum s
           | StreamChunk now uid cnum chunk \<Rightarrow> stream_chunk L now uid cnum chunk s
           | StopStream sid uid cnum \<Rightarrow> stop_stream sid uid cnum s
           | Disconnect sid \<Rightarrow> disconnect sid s
           | TimerFire i \<Rightarrow> timer_fire i s
           | EmitError pid message \<Rightarrow> emit_error L pid message s
           | EmitEnd pid \<Rightarrow> emit_end L pid s
           | GetWatch req \<Rightarrow> get_watch L req s
           | GetTimelapse req \<Rightarrow> get_timelapse L req s
           | FsWrite p f \<Rightarrow> s\<lparr>files := AList.update p f (files s)\<rparr>)"

definition run :: "lib \<Rightarrow> server \<Rightarrow> event list \<Rightarrow> server" where
  "run L s es = foldl (\<lambda>s e. step L e s) s es"

section \<open>Notions used to state the properties\<close>

text \<open>The ingest artifact of a session: \<open>path.join(recordingPath, 'input.webm')\<close>.\<close>

definition input_file :: "lib \<Rightarrow> string \<Rightarrow> string \<Rightarrow> path" where
  "input_file L uid cnum = path_join L (getRecordingPath L uid cnum) ''input.webm''"

definition timelapse_playlist :: "lib \<Rightarrow> string \<Rightarrow> string \<Rightarrow> path" where
  "timelapse_playlist L uid cnum = path_join L (getRecordingPath L uid cnum) ''timelapse.m3u8''"


text \<open>
  The stream-chunk messages for key \<open>k\<close> in a sequence of events: their decoded chunks, in
  the order of arrival.
\<close>

fun session_chunks :: "lib \<Rightarrow> key \<Rightarrow> event list \<Rightarrow> string list" where
  "session_chunks L k [] = []"
| "session_chunks L k (StreamChunk now uid cnum chunk # es) =
     (if getStreamKey uid cnum = k then buffer_from_base64 L chunk # session_chunks L k es
      else session_chunks L k es)"
| "session_chunks L k (e # es) = session_chunks L k es"






text \<open>The part of the state that the ingest sink depends on.\<close>

definition sink_view :: "server \<Rightarrow> (key \<times> stream_info) list \<times> write_stream list \<times> (path \<times> fsfile) list" where
  "sink_view s = (activeStreams s, writeStreams s, files s)"






text \<open>
  Restarts are counted per ingest artifact \<open>p\<close>: the retry commands reading \<open>p\<close> (the
  only commands without an \<open>'error'\<close> listener), the pending backoff timers for \<open>p\<close>, and
  the first-generation live commands for \<open>p\<close> that have failed.
\<close>

definition retry_count :: "server \<Rightarrow> path \<Rightarrow> nat" where
  "retry_count s p = length (filter (\<lambda>c. on_error c = None \<and> cmd_input c = p) (commands s))"

definition is_backoff_for :: "path \<Rightarrow> nat \<times> timer_callback \<Rightarrow> bool" where
  "is_backoff_for p t =
     (case snd t of
        Backoff streamKey inputFile rpath outputPlaylist \<Rightarrow> inputFile = p
      | WarmUp streamKey inputFile rpath outputPlaylist \<Rightarrow> False)"

definition backoff_count :: "server \<Rightarrow> path \<Rightarrow> nat" where
  "backoff_count s p = length (filter (is_backoff_for p) (timers s))"

definition is_live_failure_for :: "path \<Rightarrow> command \<Rightarrow> bool" where
  "is_live_failure_for p c =
     (cmd_state c = Failed \<and>
      (case on_error c of
         Some (LiveError streamKey inputFile rpath outputPlaylist) \<Rightarrow> inputFile = p
       | Some (TimelapseError streamKey req) \<Rightarrow> False
       | None \<Rightarrow> False))"

definition live_failures :: "server \<Rightarrow> path \<Rightarrow> nat" where
  "live_failures s p = length (filter (is_live_failure_for p) (commands s))"

definition restart_budget :: "server \<Rightarrow> path \<Rightarrow> bool" where
  "restart_budget s p = (retry_count s p + backoff_count s p \<le> live_failures s p)"

definition retry_view ::
    "server \<Rightarrow> (path \<times> error_listener option \<times> proc_state) list \<times> (nat \<times> timer_callback) list" where
  "retry_view s = (map (\<lambda>c. (cmd_input c, on_error c, cmd_state c)) (commands s), timers s)"

subsection \<open>Line-wise rewriting, as the specification words it\<close>

text \<open>
  The specification describes the rewriter line by line. The lines of a text are the
  pieces between LF code units; a line may end in CR (a CRLF line end), and its body is
  the line without that CR. A segment filename is the stem (\<open>segment_\<close> or
  \<open>timelapse_segment_\<close>), one or more digits, and \<open>.ts\<close>. A segment line is a line
  whose body ends in a segment filename: the filename alone, or the filename behind a
  prefix. Such a line is rewritten to the base URL followed by the line; any other line is
  kept.
\<close>

definition is_segment_file :: "ustring \<Rightarrow> ustring \<Rightarrow> bool" where
  "is_segment_file name l =
     (case strip_prefix name l of
        None \<Rightarrow> False
      | Some r \<Rightarrow> takeWhile is_digit r \<noteq> [] \<and> dropWhile is_digit r = js ''.ts'')"

definition is_segment_line :: "ustring \<Rightarrow> ustring \<Rightarrow> bool" where
  "is_segment_line name l =
     list_ex (\<lambda>k. is_segment_file name (drop k l)) [0..<Suc (length l)]"

definition line_body :: "ustring \<Rightarrow> ustring" where
  "line_body l = (if l \<noteq> [] \<and> last l = 0x0D then butlast l else l)"

definition rewrite_line :: "ustring \<Rightarrow> ustring \<Rightarrow> ustring \<Rightarrow> ustring" where
  "rewrite_line name base l = (if is_segment_line name (line_body l) then base @ l else l)"

fun split_lines :: "ustring \<Rightarrow> ustring list" where
  "split_lines [] = [[]]"
| "split_lines (c # cs) =
     (if c = 0x0A then [] # split_lines cs
      else (case split_lines cs of
              [] \<Rightarrow> [[c]]
            | l # ls \<Rightarrow> (c # l) # ls))"

fun join_lines :: "ustring list \<Rightarrow> ustring" where
  "join_lines [] = []"
| "join_lines [l] = l"
| "join_lines (l # l' # ls) = l @ 0x0A # join_lines (l' # ls)"

definition rewrite_linewise :: "ustring \<Rightarrow> ustring \<Rightarrow> ustring \<Rightarrow> ustring" where
  "rewrite_linewise name base text = join_lines (map (rewrite_line name base) (split_lines text))"

text \<open>
  The manifests the line-wise description is stated for. Every line ends in LF or CRLF
  and holds no other line terminator (no CR elsewhere, no U+2028, no U+2029): the body of
  every line is free of line terminators. And no line has a slash (0x2F) before a segment
  filename that ends its body.
\<close>

definition well_ended :: "ustring \<Rightarrow> bool" where
  "well_ended l = list_all (\<lambda>c. \<not> is_line_terminator c) (line_body l)"

definition has_dir_prefix :: "ustring \<Rightarrow> ustring \<Rightarrow> bool" where
  "has_dir_prefix name l =
     list_ex (\<lambda>k. 0x2F \<in> set (take k (line_body l)) \<and> is_segment_file name (drop k (line_body l)))
       [0..<Suc (length (line_body l))]"

definition plain_manifest :: "ustring \<Rightarrow> ustring \<Rightarrow> bool" where
  "plain_manifest name text =
     list_all (\<lambda>l. well_ended l \<and> \<not> has_dir_prefix name l) (split_lines text)"

text \<open>
  A base URL is free of replacement patterns when no dollar sign in it is followed by a
  dollar sign, an ampersand, a backquote, a quote, the digit 1, or the digits 01: with one
  capture group these are the only continuations that make \<open>$\<close> special.
\<close>

fun no_pattern :: "ustring \<Rightarrow> bool" where
  "no_pattern [] = True"
| "no_pattern [c] = True"
| "no_pattern (c # d # t) =
     ((if c = 0x24
       then d \<noteq> 0x24 \<and> d \<noteq> 0x26 \<and> d \<noteq> 0x60 \<and> d \<noteq> 0x27 \<and> d \<noteq> 0x31
            \<and> \<not> (d = 0x30 \<and> (case t of [] \<Rightarrow> False | e # _ \<Rightarrow> e = 0x31))
       else True)
      \<and> no_pattern (d # t))"

text \<open>
  The second expression alone rewrites the lines with a non-empty slash-free prefix.
\<close>

definition is_prefixed_line :: "ustring \<Rightarrow> ustring \<Rightarrow> bool" where
  "is_prefixed_line name l =
     list_ex (\<lambda>k. 0x2F \<notin> set (take k l) \<and> is_segment_file name (drop k l))
       [1..<Suc (length l)]"

text \<open>
  Two properties of a matcher, used to follow the global replace line by line: it matches
  only at the start of a line; and on a line body free of line terminators that is
  followed by the end of the text, by LF, or by a CR that ends the text or precedes LF, it
  matches the whole body exactly when the body satisfies \<open>hit\<close>.
\<close>

definition anchored :: "(ustring \<Rightarrow> ustring \<Rightarrow> nat option) \<Rightarrow> bool" where
  "anchored m = (\<forall>pre rest. \<not> at_line_start pre \<longrightarrow> m pre rest = None)"

definition line_rest :: "ustring \<Rightarrow> bool" where
  "line_rest rest =
     (case rest of
        [] \<Rightarrow> True
      | c # r \<Rightarrow> c = 0x0A \<or> (c = 0x0D \<and> (case r of [] \<Rightarrow> True | d # _ \<Rightarrow> d = 0x0A)))"

definition decides :: "(ustring \<Rightarrow> ustring \<Rightarrow> nat option) \<Rightarrow> (ustring \<Rightarrow> bool) \<Rightarrow> bool" where
  "decides m hit =
     (\<forall>pre l rest. at_line_start pre \<longrightarrow> (\<forall>c\<in>set l. \<not> is_line_terminator c) \<longrightarrow>
        line_rest rest \<longrightarrow>
        m pre (l @ rest) = (if hit l then Some (length l) else None))"

section \<open>An instance of the library\<close>

text \<open>
  For the examples: \<open>path.join\<close> on names that need no normalisation, the recordings
  directory of the container image (\<open>WORKDIR /app\<close>), a base64 decoder for the
  standard alphabet that skips other characters and stops at the padding, and a UTF-8
  decoder.
\<close>

definition b64_alphabet :: string where
  "b64_alphabet = ''ABCDEFGHIJKLMNOPQRSTUVWXYZabcdefghijklmnopqrstuvwxyz0123456789+/''"

fun index_of :: "char \<Rightarrow> string \<Rightarrow> nat option" where
  "index_of c [] = None"
| "index_of c (x # xs) = (if c = x then Some 0 else map_option Suc (index_of c xs))"

fun sextets_to_bytes :: "nat list \<Rightarrow> nat list" where
  "sextets_to_bytes (a # b # c # d # r) =
     (a * 4 + b div 16) # ((b mod 16) * 16 + c div 4) # ((c mod 4) * 64 + d) # sextets_to_bytes r"
| "sextets_to_bytes [a, b, c] = [a * 4 + b div 16, (b mod 16) * 16 + c div 4]"
| "sextets_to_bytes [a, b] = [a * 4 + b div 16]"
| "sextets_to_bytes _ = []"

definition base64_decode :: "string \<Rightarrow> string" where
  "base64_decode s =
     map char_of (sextets_to_bytes
       (List.map_filter (\<lambda>c. index_of c b64_alphabet) (takeWhile (\<lambda>c. c \<noteq> CHR ''='') s)))"

text \<open>
  The UTF-8 decoder: a well-formed sequence gives its code point; every maximal ill-formed
  part gives U+FFFD, and decoding resumes at the byte that broke the sequence. The state
  is the number of continuation bytes still needed and seen, the code point so far, and
  the bounds of the next continuation byte. Code points above U+FFFF become surrogate
  pairs.
\<close>

type_synonym utf8_state = "nat \<times> nat \<times> int \<times> int \<times> int"

definition utf8_idle :: utf8_state where
  "utf8_idle = (0, 0, 0, 0x80, 0xBF)"

definition utf8_first :: "int \<Rightarrow> int list \<times> utf8_state" where
  "utf8_first b =
     (if b \<le> 0x7F then ([b], utf8_idle)
      else if 0xC2 \<le> b \<and> b \<le> 0xDF then ([], (1, 0, b mod 32, 0x80, 0xBF))
      else if 0xE0 \<le> b \<and> b \<le> 0xEF then
        ([], (2, 0, b mod 16, if b = 0xE0 then 0xA0 else 0x80, if b = 0xED then 0x9F else 0xBF))
      else if 0xF0 \<le> b \<and> b \<le> 0xF4 then
        ([], (3, 0, b mod 8, if b = 0xF0 then 0x90 else 0x80, if b = 0xF4 then 0x8F else 0xBF))
      else ([0xFFFD], utf8_idle))"

fun utf8_points :: "int list \<Rightarrow> utf8_state \<Rightarrow> int list" where
  "utf8_points [] (needed, seen, cp, lo, hi) = (if needed = 0 then [] else [0xFFFD])"
| "utf8_points (b # bs) (needed, seen, cp, lo, hi) =
     (if needed = 0 then
        (case utf8_first b of (out, st) \<Rightarrow> out @ utf8_points bs st)
      else if b < lo \<or> hi < b then
        (case utf8_first b of (out, st) \<Rightarrow> 0xFFFD # out @ utf8_points bs st)
      else if Suc seen = needed then (cp * 64 + b mod 64) # utf8_points bs utf8_idle
      else utf8_points bs (needed, Suc seen, cp * 64 + b mod 64, 0x80, 0xBF))"

definition utf16_units :: "int \<Rightarrow> ustring" where
  "utf16_units p =
     (if p < 0x10000 then [p]
      else [0xD800 + (p - 0x10000) div 0x400, 0xDC00 + (p - 0x10000) mod 0x400])"

definition utf8_to_string :: "string \<Rightarrow> ustring" where
  "utf8_to_string bytes = concat (map utf16_units (utf8_points (map of_char bytes) utf8_idle))"

definition node_lib :: lib where
  "node_lib =
     \<lparr>path_join = (\<lambda>a b. a @ ''/'' @ b), buffer_from_base64 = base64_decode,
      utf8_decode = utf8_to_string, RECORDINGS_DIR = ''/app/recordings''\<rparr>"

section \<open>Example data\<close>

definition example_request :: request where
  "example_request =
     \<lparr>res_id = 1, param_userId = ''u1'', param_challengeNum = ''5'', x_forwarded_proto = None,
      req_secure = False, req_protocol = ''http'', req_host = Some ''example.org''\<rparr>"

text \<open>A recording whose cached timelapse playlist is older than its ingest artifact.\<close>

definition stale_cache :: "(path \<times> fsfile) list" where
  "stale_cache =
     [(''/app/recordings/u1_5/input.webm'', \<lparr>mtime = 10, content = ''webm''\<rparr>),
      (''/app/recordings/u1_5/timelapse.m3u8'',
       \<lparr>mtime = 5, content = ''#EXTM3U\<newline>timelapse_segment_000.ts\<newline>''\<rparr>)]"



text \<open>A session whose encoder is spawned, fails, and is retried or stopped.\<close>

definition encoder_started :: "event list" where
  "encoder_started = [StartStream 0 ''sock'' ''u1'' ''5'', TimerFire 0]"

definition encoder_failed :: "event list" where
  "encoder_failed = encoder_started @ [EmitError 0 ''boom'']"

definition encoder_retried :: "event list" where
  "encoder_retried = encoder_failed @ [TimerFire 0]"

definition session_gone :: "event list" where
  "session_gone = encoder_failed @ [StopStream ''sock'' ''u1'' ''5'']"

text \<open>
  A live playlist as the encoder writes it, its bytes with LF line ends and with CRLF line
  ends. Then the bytes of three playlists: one whose line holds U+2028 (in UTF-8 the bytes
  E2 80 A8) before a segment filename, one whose directive line holds the byte FF, which
  is not valid UTF-8, and one with a lone CR between a directive and a line that ends in a
  segment filename. And a recording directory that holds the first of the three as its live
  playlist.
\<close>

definition example_playlist :: string where
  "example_playlist =
     ''#EXTM3U\<newline>#EXT-X-TARGETDURATION:2\<newline>#EXTINF:2.000000,\<newline>segment_000.ts\<newline>#EXTINF:2.000000,\<newline>segment_001.ts\<newline>''"

definition crlf_playlist :: string where
  "crlf_playlist =
     ''#EXTM3U'' @ [CHR 0x0D, CHR 0x0A] @ ''#EXTINF:2.000000,'' @ [CHR 0x0D, CHR 0x0A]
       @ ''segment_000.ts'' @ [CHR 0x0D, CHR 0x0A]"

definition separator_playlist :: string where
  "separator_playlist = ''x'' @ [CHR 0xE2, CHR 0x80, CHR 0xA8] @ ''segment_0.ts''"

definition invalid_playlist :: string where
  "invalid_playlist = ''#'' @ [CHR 0xFF] @ ''\<newline>segment_0.ts''"

definition cr_playlist :: string where
  "cr_playlist = ''#EXTM3U'' @ [CHR 0x0D] @ ''xsegment_0.ts''"

definition live_recording :: "(path \<times> fsfile) list" where
  "live_recording =
     [(''/app/recordings/u1_5/playlist.m3u8'', \<lparr>mtime = 3, content = separator_playlist\<rparr>)]"



section \<open>Properties of the session key\<close>

lemma key_split_user:
  assumes "CHR ''_'' \<notin> set u1" "CHR ''_'' \<notin> set u2"
    and "u1 @ CHR ''_'' # c1 = u2 @ CHR ''_'' # c2"
  shows "u1 = u2 \<and> c1 = c2"
proof -
  have "takeWhile (\<lambda>x. x \<noteq> CHR ''_'') (u1 @ CHR ''_'' # c1) = u1"
    using assms(1) by (induction u1) auto
  moreover have "takeWhile (\<lambda>x. x \<noteq> CHR ''_'') (u2 @ CHR ''_'' # c2) = u2"
    using assms(2) by (induction u2) auto
  ultimately have "u1 = u2" using assms(3) by simp
  with assms(3) show ?thesis by simp
qed

lemma key_split_challenge:
  assumes "CHR ''_'' \<notin> set c1" "CHR ''_'' \<notin> set c2"
    and "u1 @ CHR ''_'' # c1 = u2 @ CHR ''_'' # c2"
  shows "u1 = u2 \<and> c1 = c2"
proof -
  from assms(3) have "rev (u1 @ CHR ''_'' # c1) = rev (u2 @ CHR ''_'' # c2)" by simp
  then have "rev c1 @ CHR ''_'' # rev u1 = rev c2 @ CHR ''_'' # rev u2" by simp
  moreover have "CHR ''_'' \<notin> set (rev c1)" "CHR ''_'' \<notin> set (rev c2)"
    using assms(1,2) by simp_all
  ultimately have "rev c1 = rev c2 \<and> rev u1 = rev u2" by (rule key_split_user[rotated 2])
  then show ?thesis by simp
qed

text \<open>
  C9 (as the code has it). The key is a function of the pair, so equal pairs give equal
  keys. It is not injective on all pairs, because the separator may occur inside either
  identifier; it is injective on the pairs whose user identifiers contain no underscore,
  and on the pairs whose challenge identifiers contain no underscore.
\<close>

theorem getStreamKey_injective_without_separator:
  assumes "(CHR ''_'' \<notin> set u1 \<and> CHR ''_'' \<notin> set u2) \<or> (CHR ''_'' \<notin> set c1 \<and> CHR ''_'' \<notin> set c2)"
    and "getStreamKey u1 c1 = getStreamKey u2 c2"
  shows "u1 = u2 \<and> c1 = c2"
proof -
  from assms(2) have eq: "u1 @ CHR ''_'' # c1 = u2 @ CHR ''_'' # c2"
    by (simp add: getStreamKey_def)
  from assms(1) show ?thesis
  proof
    assume "CHR ''_'' \<notin> set u1 \<and> CHR ''_'' \<notin> set u2"
    then show ?thesis using eq key_split_user by blast
  next
    assume "CHR ''_'' \<notin> set c1 \<and> CHR ''_'' \<notin> set c2"
    then show ?thesis using eq key_split_challenge by blast
  qed
qed

theorem getStreamKey_injective_witness:
  "((CHR ''_'' \<notin> set ''u1'' \<and> CHR ''_'' \<notin> set ''u1'') \<or> (CHR ''_'' \<notin> set ''5'' \<and> CHR ''_'' \<notin> set ''5''))
   \<and> getStreamKey ''u1'' ''5'' = ''u1_5''
   \<and> getStreamKey ''u1'' ''5'' = getStreamKey ''u1'' ''5''
   \<and> (''u1'' = ''u1'' \<and> ''5'' = ''5'')"
  using getStreamKey_injective_without_separator [of "''u1''" "''u1''" "''5''" "''5''"]
  by (simp add: getStreamKey_def)

text \<open>
  C9 (as stated) fails: the pairs \<open>(a_b, c)\<close> and \<open>(a, b_c)\<close> are distinct and share
  the key \<open>a_b_c\<close>.
\<close>

theorem getStreamKey_collision:
  "getStreamKey ''a_b'' ''c'' = getStreamKey ''a'' ''b_c'' \<and> (''a_b'', ''c'') \<noteq> (''a'', ''b_c'')"
  by (simp add: getStreamKey_def)

section \<open>Properties of the timelapse filter graph\<close>

text \<open>
  C1 (what the code does). The audio chain multiplies to 30, not to the 60 that the
  comment beside it announces, while the video timestamps are scaled by 0.01667, a speed-up
  of about 59.988; the two factors differ. Every audio stage lies within the range
  [0.5, 2] of a single tempo stage.
\<close>

theorem timelapse_factors_differ:
  "tempo_factor audioFilters = 30
   \<and> tempo_factor audioFilters \<noteq> 60
   \<and> pts_factor videoFilters = 1667 / 100000
   \<and> pts_factor videoFilters \<noteq> 1 / 60
   \<and> video_speedup videoFilters = 100000 / 1667
   \<and> video_speedup videoFilters \<noteq> tempo_factor audioFilters
   \<and> list_all atempo_in_range audioFilters"
  by (simp add: audioFilters_def videoFilters_def video_speedup_def atempo_in_range_def)

section \<open>Properties of the socket handlers\<close>

lemma map_of_None_delete: "map_of al k = None \<Longrightarrow> AList.delete k al = al"
  by (simp add: delete_id map_of_eq_None_iff)


text \<open>
  C10. A \<open>stream-chunk\<close> message whose key is not registered leaves the whole server
  state as it was: no file is written, no table changes, nothing is emitted to the client
  and the host process does not fail.
\<close>

theorem stream_chunk_without_session_dropped:
  assumes "\<not> has (activeStreams s) (getStreamKey uid cnum)"
  shows "step L (StreamChunk now uid cnum chunk) s = s"
  using assms by (simp add: step_def stream_chunk_def has_def)

theorem stream_chunk_without_session_witness:
  "\<not> has (activeStreams (run node_lib (init_server [] [])
              [StartStream 1 ''sock'' ''u1'' ''5'', StopStream ''sock'' ''u1'' ''5'']))
          (getStreamKey ''u1'' ''5'')
   \<and> step node_lib (StreamChunk 2 ''u1'' ''5'' ''QUJD'')
        (run node_lib (init_server [] [])
           [StartStream 1 ''sock'' ''u1'' ''5'', StopStream ''sock'' ''u1'' ''5''])
      = run node_lib (init_server [] [])
           [StartStream 1 ''sock'' ''u1'' ''5'', StopStream ''sock'' ''u1'' ''5'']"
proof -
  have h: "\<not> has (activeStreams (run node_lib (init_server [] [])
              [StartStream 1 ''sock'' ''u1'' ''5'', StopStream ''sock'' ''u1'' ''5'']))
          (getStreamKey ''u1'' ''5'')"
    by code_simp
  show ?thesis using h stream_chunk_without_session_dropped[OF h] by simp
qed

text \<open>
  C8 (as the code has it). A \<open>stop-stream\<close> message for a key with no open session raises
  no error and leaves the session registry, the filesystem, the write streams, the
  timelapse jobs, the timers and the HTTP responses unchanged; it still acknowledges
  with \<open>stream-stopped\<close> and leaves the room of the key. When the encoder process table
  holds no entry for the key, that table and the encoder commands are unchanged too.
\<close>

theorem stop_stream_without_session:
  assumes "\<not> has (activeStreams s) (getStreamKey uid cnum)" and "\<not> crashed s"
  shows "activeStreams (step L (StopStream sid uid cnum) s) = activeStreams s
       \<and> files (step L (StopStream sid uid cnum) s) = files s
       \<and> dirs (step L (StopStream sid uid cnum) s) = dirs s
       \<and> writeStreams (step L (StopStream sid uid cnum) s) = writeStreams s
       \<and> timelapseProcesses (step L (StopStream sid uid cnum) s) = timelapseProcesses s
       \<and> timers (step L (StopStream sid uid cnum) s) = timers s
       \<and> responses (step L (StopStream sid uid cnum) s) = responses s
       \<and> \<not> crashed (step L (StopStream sid uid cnum) s)
       \<and> emitted (step L (StopStream sid uid cnum) s) = emitted s @ [(sid, StreamStopped)]
       \<and> rooms (step L (StopStream sid uid cnum) s) = removeAll (sid, getStreamKey uid cnum) (rooms s)
       \<and> (\<not> has (ffmpegProcesses s) (getStreamKey uid cnum) \<longrightarrow>
            ffmpegProcesses (step L (StopStream sid uid cnum) s) = ffmpegProcesses s
            \<and> commands (step L (StopStream sid uid cnum) s) = commands s)"
  using assms
  by (auto simp add: step_def stop_stream_def has_def Let_def stop_ffmpeg_def kill_def
      map_of_None_delete split: option.splits)

theorem stop_stream_without_session_witness:
  "\<not> has (activeStreams (init_server stale_cache [])) (getStreamKey ''u1'' ''5'')
   \<and> \<not> crashed (init_server stale_cache [])
   \<and> \<not> has (ffmpegProcesses (init_server stale_cache [])) (getStreamKey ''u1'' ''5'')
   \<and> activeStreams (step node_lib (StopStream ''sock'' ''u1'' ''5'') (init_server stale_cache [])) = []
   \<and> files (step node_lib (StopStream ''sock'' ''u1'' ''5'') (init_server stale_cache [])) = stale_cache
   \<and> ffmpegProcesses (step node_lib (StopStream ''sock'' ''u1'' ''5'') (init_server stale_cache [])) = []
   \<and> commands (step node_lib (StopStream ''sock'' ''u1'' ''5'') (init_server stale_cache [])) = []
   \<and> emitted (step node_lib (StopStream ''sock'' ''u1'' ''5'') (init_server stale_cache []))
      = [(''sock'', StreamStopped)]"
proof -
  have h1: "\<not> has (activeStreams (init_server stale_cache [])) (getStreamKey ''u1'' ''5'')"
    by (simp add: init_server_def has_def)
  have h2: "\<not> crashed (init_server stale_cache [])"
    by (simp add: init_server_def)
  have h3: "\<not> has (ffmpegProcesses (init_server stale_cache [])) (getStreamKey ''u1'' ''5'')"
    by (simp add: init_server_def has_def)
  show ?thesis
    using stop_stream_without_session[OF h1 h2, of node_lib "''sock''"] h1 h2 h3
    by (simp add: init_server_def)
qed

text \<open>
  C8 (as stated) fails. With no session at all, the handler still emits
  \<open>stream-stopped\<close>, an effect the client observes. And after a session was stopped
  before its warm-up timer fired, the encoder spawned by that timer is registered under a
  key with no open session: a further \<open>stop-stream\<close> signals it and removes its entry.
\<close>

theorem stop_stream_without_session_has_effects:
  "\<not> has (activeStreams (init_server [] [])) (getStreamKey ''u1'' ''5'')
   \<and> emitted (step node_lib (StopStream ''sock'' ''u1'' ''5'') (init_server [] []))
      = [(''sock'', StreamStopped)]
   \<and> step node_lib (StopStream ''sock'' ''u1'' ''5'') (init_server [] []) \<noteq> init_server [] []
   \<and> (let s = run node_lib (init_server [] [])
                 [StartStream 1 ''sock'' ''u1'' ''5'', StopStream ''sock'' ''u1'' ''5'', TimerFire 0]
       in \<not> has (activeStreams s) (getStreamKey ''u1'' ''5'')
          \<and> ffmpegProcesses s = [(''u1_5'', 0)]
          \<and> \<not> cmd_signalled (commands s ! 0)
          \<and> ffmpegProcesses (step node_lib (StopStream ''sock'' ''u1'' ''5'') s) = []
          \<and> cmd_signalled (commands (step node_lib (StopStream ''sock'' ''u1'' ''5'') s) ! 0))"
proof -
  have a: "\<not> has (activeStreams (init_server [] [])) (getStreamKey ''u1'' ''5'')
     \<and> emitted (step node_lib (StopStream ''sock'' ''u1'' ''5'') (init_server [] []))
        = [(''sock'', StreamStopped)]"
    by (simp add: step_def stop_stream_def has_def Let_def stop_ffmpeg_def init_server_def)
  have b: "step node_lib (StopStream ''sock'' ''u1'' ''5'') (init_server [] []) \<noteq> init_server [] []"
  proof
    assume "step node_lib (StopStream ''sock'' ''u1'' ''5'') (init_server [] []) = init_server [] []"
    then have "emitted (step node_lib (StopStream ''sock'' ''u1'' ''5'') (init_server [] []))
               = emitted (init_server [] [])"
      by simp
    with a show False by (simp add: init_server_def)
  qed
  have c: "let s = run node_lib (init_server [] [])
                 [StartStream 1 ''sock'' ''u1'' ''5'', StopStream ''sock'' ''u1'' ''5'', TimerFire 0]
       in \<not> has (activeStreams s) (getStreamKey ''u1'' ''5'')
          \<and> ffmpegProcesses s = [(''u1_5'', 0)]
          \<and> \<not> cmd_signalled (commands s ! 0)
          \<and> ffmpegProcesses (step node_lib (StopStream ''sock'' ''u1'' ''5'') s) = []
          \<and> cmd_signalled (commands (step node_lib (StopStream ''sock'' ''u1'' ''5'') s) ! 0)"
    by code_simp
  from a b c show ?thesis by blast
qed

section \<open>Properties of the ingest sink\<close>


lemma step_crashed: "crashed s \<Longrightarrow> step L e s = s"
  by (simp add: step_def)







lemma respond_sink_view: "sink_view (respond req st b s) = sink_view s"
  by (simp add: respond_def sink_view_def)












lemma file_content_files: "files s' = files s \<Longrightarrow> file_content s' p = file_content s p"
  by (simp add: file_content_def)












lemma chunk_bytes_concat:
  "concat (session_chunks L k (e # es))
   = (case e of StreamChunk now u c chunk \<Rightarrow>
        if getStreamKey u c = k then buffer_from_base64 L chunk else []
      | _ \<Rightarrow> []) @ concat (session_chunks L k es)"
  by (cases e) simp_all






section \<open>Properties of the timelapse cache\<close>

text \<open>
  Whenever the source and a cached playlist exist, the route serves the playlist, whatever
  the two modification times are; \<open>generateTimelapse\<close> alone would compare them and start
  the encoder for a playlist older than the source.
\<close>

lemma cached_playlist_served_at_any_age:
  assumes "\<not> crashed s"
    and "existsSync s (input_file L (param_userId req) (param_challengeNum req))"
    and "map_of (files s) (timelapse_playlist L (param_userId req) (param_challengeNum req)) = Some f"
  shows "step L (GetTimelapse req) s
         = respond req 200
             (Playlist (rewrite_playlist (js ''timelapse_segment_'') (js (baseUrl req))
                            (utf8_decode L (content f)))) s"
  using assms
  by (simp add: step_def get_timelapse_def Let_def input_file_def timelapse_playlist_def)

lemma generateTimelapse_recomputes_stale:
  assumes "map_of (files s) (input_file L uid cnum) = Some i"
    and "map_of (files s) (timelapse_playlist L uid cnum) = Some t"
    and "mtime t < mtime i" and "\<not> has (timelapseProcesses s) (getStreamKey uid cnum)"
  shows "length (commands (generateTimelapse L uid cnum req s)) = Suc (length (commands s))"
    and "map_of (timelapseProcesses (generateTimelapse L uid cnum req s)) (getStreamKey uid cnum)
         = Some (length (commands s))"
  using assms
  by (simp_all add: generateTimelapse_def Let_def input_file_def timelapse_playlist_def spawn_def
      update_conv')

text \<open>
  C2 (what the code does). Source and cached playlist both exist and the playlist is
  older than the source. The route answers 200 with the cached playlist and starts no
  encoder: nothing is recomputed, and the files are untouched. The staleness test of
  \<open>generateTimelapse\<close>, which on the same state would start the encoder, is never
  reached from the route, because the route returns as soon as the playlist exists.
\<close>

theorem stale_cache_is_served:
  "map_of stale_cache (input_file node_lib ''u1'' ''5'') = Some \<lparr>mtime = 10, content = ''webm''\<rparr>
   \<and> map_of stale_cache (timelapse_playlist node_lib ''u1'' ''5'')
      = Some \<lparr>mtime = 5, content = ''#EXTM3U\<newline>timelapse_segment_000.ts\<newline>''\<rparr>
   \<and> step node_lib (GetTimelapse example_request) (init_server stale_cache [])
      = (init_server stale_cache [])\<lparr>responses := [(1, \<lparr>status = 200, body = Playlist
           (js ''#EXTM3U\<newline>http://example.org/recordings/u1_5/timelapse_segment_000.ts\<newline>'')\<rparr>)]\<rparr>
   \<and> commands (step node_lib (GetTimelapse example_request) (init_server stale_cache [])) = []
   \<and> length (commands (generateTimelapse node_lib ''u1'' ''5'' example_request
                 (init_server stale_cache []))) = 1"
  by code_simp

section \<open>Properties of encoder supervision\<close>

text \<open>
  An \<open>'error'\<close> event of a command that has a listener is handled; one of a command
  without listener ends the host process.
\<close>

lemma handled_error_is_caught:
  assumes "\<not> crashed s" and "on_error (commands s ! pid) \<noteq> None"
  shows "\<not> crashed (step L (EmitError pid message) s)"
proof -
  from assms(2) obtain l where l: "on_error (commands s ! pid) = Some l" by auto
  show ?thesis
    using assms(1) l
    by (cases l)
       (simp_all add: step_def emit_error_def Let_def timelapse_callback_def respond_def)
qed

lemma unhandled_error_ends_host:
  assumes "\<not> crashed s" and "pid < length (commands s)"
    and "cmd_state (commands s ! pid) = Running" and "on_error (commands s ! pid) = None"
  shows "crashed (step L (EmitError pid message) s)"
  using assms by (simp add: step_def emit_error_def Let_def)

text \<open>
  C7 (what the code does). A session is started, its encoder is spawned by the warm-up
  timer and fails, and the backoff timer spawns the retry command. That command is
  registered for the session, is running, and has no \<open>'error'\<close> listener: when it fails in
  turn, the error is thrown with nothing to catch it and the host process ends. The same
  happens when the retry command is signalled by \<open>stop-stream\<close> and then reports that
  it was killed.
\<close>

theorem retry_error_is_not_caught:
  "(let s = run node_lib (init_server [] [])
              [StartStream 0 ''sock'' ''u1'' ''5'', TimerFire 0, EmitError 0 ''boom'', TimerFire 0]
    in \<not> crashed s
       \<and> map_of (ffmpegProcesses s) ''u1_5'' = Some 1
       \<and> on_error (commands s ! 1) = None
       \<and> cmd_state (commands s ! 1) = Running
       \<and> crashed (step node_lib (EmitError 1 ''boom'') s)
       \<and> \<not> crashed (step node_lib (StopStream ''sock'' ''u1'' ''5'') s)
       \<and> crashed (step node_lib (EmitError 1 ''ffmpeg was killed with signal SIGTERM'')
                    (step node_lib (StopStream ''sock'' ''u1'' ''5'') s)))"
  by code_simp

section \<open>The single-flight invariant of the timelapse job gate\<close>


lemma run_invariant:
  assumes "P s" and "\<And>s e. P s \<Longrightarrow> P (step L e s)"
  shows "P (run L s es)"
  using assms(1)
proof (induction es arbitrary: s)
  case Nil
  then show ?case by (simp add: run_def)
next
  case (Cons e es)
  have "run L s (e # es) = run L (step L e s) es" by (simp add: run_def)
  then show ?case using Cons.IH[OF assms(2)[OF Cons.prems]] by simp
qed






































section \<open>The restart budget of the live encoder\<close>

lemma count_update:
  assumes "i < length xs"
  shows "length (filter P (xs[i := y])) + (if P (xs ! i) then 1 else 0)
       = length (filter P xs) + (if P y then 1 else 0)"
proof -
  have a: "xs = take i xs @ xs ! i # drop (Suc i) xs"
    using assms by (simp add: id_take_nth_drop)
  have b: "xs[i := y] = take i xs @ y # drop (Suc i) xs"
    using assms by (simp add: upd_conv_take_nth_drop)
  have "length (filter P xs) = length (filter P (take i xs @ xs ! i # drop (Suc i) xs))"
    using a by simp
  then show ?thesis by (simp add: b)
qed

lemma count_remove:
  assumes "i < length xs"
  shows "length (filter P (take i xs @ drop (Suc i) xs)) + (if P (xs ! i) then 1 else 0)
       = length (filter P xs)"
proof -
  have "length (filter P xs) = length (filter P (take i xs @ xs ! i # drop (Suc i) xs))"
    using assms by (simp add: id_take_nth_drop[symmetric])
  then show ?thesis by simp
qed

lemma counts_retry_view:
  "retry_count s p = length (filter (\<lambda>(i, e, st). e = None \<and> i = p) (fst (retry_view s)))"
  "live_failures s p = length (filter (\<lambda>(i, e, st). st = Failed \<and>
      (case e of Some (LiveError streamKey inputFile rpath outputPlaylist) \<Rightarrow> inputFile = p
       | Some (TimelapseError streamKey req) \<Rightarrow> False | None \<Rightarrow> False)) (fst (retry_view s)))"
  "backoff_count s p = length (filter (is_backoff_for p) (snd (retry_view s)))"
  by (simp_all add: retry_view_def retry_count_def live_failures_def backoff_count_def filter_map
      comp_def is_live_failure_for_def[abs_def])

lemma budget_frame:
  assumes "restart_budget s p" and "retry_view s' = retry_view s"
  shows "restart_budget s' p"
  using assms by (simp add: restart_budget_def counts_retry_view)

lemma kill_retry_view: "retry_view (kill pid s) = retry_view s"
  by (simp add: retry_view_def kill_def map_update list_update_same_conv)

lemma ws_end_retry_view: "retry_view (ws_end h s) = retry_view s"
  by (simp add: retry_view_def ws_end_def)

lemma stop_ffmpeg_retry_view: "retry_view (stop_ffmpeg k s) = retry_view s"
  using kill_retry_view[of _ s]
  by (simp add: stop_ffmpeg_def retry_view_def Let_def split: option.splits)

lemma teardown_retry_view: "retry_view (teardown sid entries s) = retry_view s"
proof (induction entries arbitrary: s)
  case Nil
  then show ?case by simp
next
  case (Cons e entries)
  obtain k info where e: "e = (k, info)" by (cases e)
  have "retry_view ((stop_ffmpeg k (ws_end (writeStream info) s))
          \<lparr>activeStreams := AList.delete k (activeStreams (stop_ffmpeg k (ws_end (writeStream info) s)))\<rparr>)
        = retry_view s"
    using stop_ffmpeg_retry_view[of k "ws_end (writeStream info) s"] ws_end_retry_view[of "writeStream info" s]
    by (simp add: retry_view_def)
  then show ?case using Cons.IH by (simp add: e Let_def)
qed

lemma respond_retry_view: "retry_view (respond req st b s) = retry_view s"
  by (simp add: retry_view_def respond_def)

lemma timelapse_callback_retry_view: "retry_view (timelapse_callback L req r s) = retry_view s"
  by (simp add: timelapse_callback_def respond_retry_view split: sum.splits option.splits)
     (simp add: retry_view_def)

lemma budget_start: "restart_budget s p \<Longrightarrow> restart_budget (start_stream L now sid uid cnum s) p"
  by (simp add: restart_budget_def retry_count_def backoff_count_def live_failures_def
      start_stream_def Let_def createWriteStream_def is_backoff_for_def)

lemma budget_chunk: "restart_budget s p \<Longrightarrow> restart_budget (stream_chunk L now uid cnum chunk s) p"
  by (erule budget_frame)
     (simp add: retry_view_def stream_chunk_def Let_def ws_write_def split: option.splits)

lemma budget_stop: "restart_budget s p \<Longrightarrow> restart_budget (stop_stream sid uid cnum s) p"
proof (erule budget_frame)
  show "retry_view (stop_stream sid uid cnum s) = retry_view s"
    using stop_ffmpeg_retry_view[of "getStreamKey uid cnum" s]
      stop_ffmpeg_retry_view[of "getStreamKey uid cnum" "ws_end h s" for h] ws_end_retry_view[of _ s]
    by (simp add: stop_stream_def Let_def retry_view_def split: option.splits)
qed

lemma budget_disconnect: "restart_budget s p \<Longrightarrow> restart_budget (disconnect sid s) p"
proof (erule budget_frame)
  show "retry_view (disconnect sid s) = retry_view s"
    unfolding disconnect_def by (simp add: teardown_retry_view) (simp add: retry_view_def)
qed

lemma budget_respond: "restart_budget s p \<Longrightarrow> restart_budget (respond req st b s) p"
  by (erule budget_frame) (simp add: respond_retry_view)

lemma budget_callback: "restart_budget s p \<Longrightarrow> restart_budget (timelapse_callback L req r s) p"
  by (erule budget_frame) (simp add: timelapse_callback_retry_view)

lemma budget_generate:
  "restart_budget s p \<Longrightarrow> restart_budget (generateTimelapse L uid cnum req s) p"
  by (auto simp add: generateTimelapse_def Let_def budget_callback split: option.splits)
     (simp_all add: spawn_def restart_budget_def retry_count_def backoff_count_def
       live_failures_def is_live_failure_for_def)

lemma budget_get_timelapse:
  "restart_budget s p \<Longrightarrow> restart_budget (get_timelapse L req s) p"
  by (simp add: get_timelapse_def Let_def budget_respond budget_generate split: option.splits)

lemma budget_get_watch:
  "restart_budget s p \<Longrightarrow> restart_budget (get_watch L req s) p"
  by (simp add: get_watch_def Let_def budget_respond split: option.splits)

lemma budget_timer: "restart_budget s p \<Longrightarrow> restart_budget (timer_fire i s) p"
proof (cases "i < length (timers s)")
  case False
  assume "restart_budget s p"
  with False show ?thesis by (simp add: timer_fire_def)
next
  case True
  assume b: "restart_budget s p"
  note r = count_remove[OF True, of "is_backoff_for p"]
  show ?thesis
  proof (cases "snd (timers s ! i)")
    case (WarmUp k inp rp out)
    then have "\<not> is_backoff_for p (timers s ! i)" by (simp add: is_backoff_for_def)
    with r b True WarmUp show ?thesis
      by (simp add: timer_fire_def Let_def spawn_def restart_budget_def retry_count_def
          backoff_count_def live_failures_def is_live_failure_for_def)
  next
    case (Backoff k inp rp out)
    then have "is_backoff_for p (timers s ! i) = (inp = p)" by (simp add: is_backoff_for_def)
    with r b True Backoff show ?thesis
      by (auto simp add: timer_fire_def Let_def spawn_def restart_budget_def retry_count_def
          backoff_count_def live_failures_def is_live_failure_for_def)
  qed
qed


lemma exit_counts:
  assumes "pid < length (commands s)" and "cmd_state (commands s ! pid) = Running"
  shows "retry_count (s\<lparr>commands := (commands s)[pid := (commands s ! pid)\<lparr>cmd_state := st\<rparr>]\<rparr>) p
         = retry_count s p"
    and "live_failures (s\<lparr>commands := (commands s)[pid := (commands s ! pid)\<lparr>cmd_state := st\<rparr>]\<rparr>) p
         = live_failures s p
           + (if is_live_failure_for p ((commands s ! pid)\<lparr>cmd_state := st\<rparr>) then 1 else 0)"
    and "backoff_count (s\<lparr>commands := (commands s)[pid := (commands s ! pid)\<lparr>cmd_state := st\<rparr>]\<rparr>) p
         = backoff_count s p"
proof -
  show "retry_count (s\<lparr>commands := (commands s)[pid := (commands s ! pid)\<lparr>cmd_state := st\<rparr>]\<rparr>) p
         = retry_count s p"
    using count_update[OF assms(1), of "\<lambda>c. on_error c = None \<and> cmd_input c = p"
        "(commands s ! pid)\<lparr>cmd_state := st\<rparr>"]
    by (simp add: retry_count_def)
  have "\<not> is_live_failure_for p (commands s ! pid)"
    using assms(2) by (simp add: is_live_failure_for_def)
  then show "live_failures (s\<lparr>commands := (commands s)[pid := (commands s ! pid)\<lparr>cmd_state := st\<rparr>]\<rparr>) p
         = live_failures s p
           + (if is_live_failure_for p ((commands s ! pid)\<lparr>cmd_state := st\<rparr>) then 1 else 0)"
    using count_update[OF assms(1), of "is_live_failure_for p" "(commands s ! pid)\<lparr>cmd_state := st\<rparr>"]
    by (simp add: live_failures_def)
  show "backoff_count (s\<lparr>commands := (commands s)[pid := (commands s ! pid)\<lparr>cmd_state := st\<rparr>]\<rparr>) p
         = backoff_count s p"
    by (simp add: backoff_count_def)
qed

lemma budget_emit_error: "restart_budget s p \<Longrightarrow> restart_budget (emit_error L pid message s) p"
proof -
  assume b: "restart_budget s p"
  show ?thesis
  proof (cases "pid < length (commands s) \<and> cmd_state (commands s ! pid) = Running")
    case False
    then show ?thesis using b by (auto simp add: emit_error_def)
  next
    case True
    let ?s1 = "s\<lparr>commands := (commands s)[pid := (commands s ! pid)\<lparr>cmd_state := Failed\<rparr>]\<rparr>"
    note c = exit_counts[of pid s Failed p]
    have s1: "restart_budget ?s1 p"
      using b c True by (simp add: restart_budget_def)
    show ?thesis
    proof (cases "on_error (commands s ! pid)")
      case None
      have "restart_budget (?s1\<lparr>crashed := True\<rparr>) p"
        by (rule budget_frame[OF s1]) (simp add: retry_view_def)
      then show ?thesis using True None by (simp add: emit_error_def Let_def)
    next
      case (Some l)
      show ?thesis
      proof (cases l)
        case (LiveError k inp rp out)
        have f: "is_live_failure_for p ((commands s ! pid)\<lparr>cmd_state := Failed\<rparr>) = (inp = p)"
          using Some LiveError by (simp add: is_live_failure_for_def)
        have "restart_budget (?s1\<lparr>timers := timers ?s1 @ [(2000, Backoff k inp rp out)]\<rparr>) p"
          using b c True f
          by (simp add: restart_budget_def retry_count_def backoff_count_def live_failures_def
              is_backoff_for_def)
        then show ?thesis using True Some LiveError s1 by (simp add: emit_error_def Let_def)
      next
        case (TimelapseError k req)
        have "restart_budget (?s1\<lparr>timelapseProcesses := AList.delete k (timelapseProcesses ?s1)\<rparr>) p"
          by (rule budget_frame[OF s1]) (simp add: retry_view_def)
        then show ?thesis using True Some TimelapseError
          by (simp add: emit_error_def Let_def budget_callback)
      qed
    qed
  qed
qed

lemma budget_emit_end: "restart_budget s p \<Longrightarrow> restart_budget (emit_end L pid s) p"
proof -
  assume b: "restart_budget s p"
  show ?thesis
  proof (cases "pid < length (commands s) \<and> cmd_state (commands s ! pid) = Running")
    case False
    then show ?thesis using b by (auto simp add: emit_end_def)
  next
    case True
    let ?s1 = "s\<lparr>commands := (commands s)[pid := (commands s ! pid)\<lparr>cmd_state := Ended\<rparr>]\<rparr>"
    have "\<not> is_live_failure_for p ((commands s ! pid)\<lparr>cmd_state := Ended\<rparr>)"
      by (simp add: is_live_failure_for_def)
    then have s1: "restart_budget ?s1 p"
      using b exit_counts[of pid s Ended p] True by (simp add: restart_budget_def)
    show ?thesis
    proof (cases "on_end (commands s ! pid)")
      case None
      then show ?thesis using True s1 by (simp add: emit_end_def Let_def)
    next
      case (Some l)
      show ?thesis
      proof (cases l)
        case (LiveEnd k)
        then show ?thesis using True Some s1 by (simp add: emit_end_def Let_def)
      next
        case (TimelapseEnd k pl req)
        have "restart_budget (?s1\<lparr>timelapseProcesses := AList.delete k (timelapseProcesses ?s1)\<rparr>) p"
          by (rule budget_frame[OF s1]) (simp add: retry_view_def)
        then show ?thesis using True Some TimelapseEnd
          by (simp add: emit_end_def Let_def budget_callback)
      qed
    qed
  qed
qed

lemma budget_step: "restart_budget s p \<Longrightarrow> restart_budget (step L e s) p"
proof (cases "crashed s")
  case True
  assume "restart_budget s p"
  with True show ?thesis by (simp add: step_def)
next
  case False
  assume b: "restart_budget s p"
  show ?thesis
  proof (cases e)
    case (FsWrite q f)
    have "restart_budget (s\<lparr>files := AList.update q f (files s)\<rparr>) p"
      by (rule budget_frame[OF b]) (simp add: retry_view_def)
    with False FsWrite show ?thesis by (simp add: step_def)
  qed (simp_all add: step_def b budget_start budget_chunk budget_stop budget_disconnect
        budget_timer budget_emit_error budget_emit_end budget_get_watch budget_get_timelapse)
qed

lemma budget_init: "restart_budget (init_server fs ds) p"
  by (simp add: restart_budget_def retry_count_def backoff_count_def live_failures_def init_server_def)

lemma budget_reachable: "restart_budget (run L (init_server fs ds) es) p"
  by (rule run_invariant[where P = "\<lambda>s. restart_budget s p", OF budget_init budget_step])

lemma live_error_schedules_backoff:
  assumes "\<not> crashed s" and "pid < length (commands s)"
    and "cmd_state (commands s ! pid) = Running"
    and "on_error (commands s ! pid) = Some (LiveError k inp rp out)"
  shows "has (activeStreams s) k \<Longrightarrow>
           timers (step L (EmitError pid message) s) = timers s @ [(2000, Backoff k inp rp out)]"
    and "\<not> has (activeStreams s) k \<Longrightarrow> timers (step L (EmitError pid message) s) = timers s"
    and "length (commands (step L (EmitError pid message) s)) = length (commands s)"
    and "cmd_state (commands (step L (EmitError pid message) s) ! pid) = Failed"
    and "ffmpegProcesses (step L (EmitError pid message) s) = ffmpegProcesses s"
    and "\<not> crashed (step L (EmitError pid message) s)"
  using assms by (simp_all add: step_def emit_error_def Let_def)

lemma backoff_fires:
  assumes "\<not> crashed s" and "i < length (timers s)"
    and "snd (timers s ! i) = Backoff k inp rp out"
  shows "has (activeStreams s) k \<Longrightarrow>
           commands (step L (TimerFire i) s)
           = commands s @ [\<lparr>cmd_input = inp, cmd_output = out, on_error = None, on_end = None,
                             cmd_state = Running, cmd_signalled = False\<rparr>]
           \<and> ffmpegProcesses (step L (TimerFire i) s)
             = AList.update k (length (commands s)) (ffmpegProcesses s)"
    and "\<not> has (activeStreams s) k \<Longrightarrow>
           step L (TimerFire i) s = s\<lparr>timers := take i (timers s) @ drop (Suc i) (timers s)\<rparr>"
    and "timers (step L (TimerFire i) s) = take i (timers s) @ drop (Suc i) (timers s)"
  using assms by (simp_all add: step_def timer_fire_def Let_def spawn_def)

lemma retry_error_terminal:
  assumes "pid < length (commands s)" and "on_error (commands s ! pid) = None"
  shows "timers (step L (EmitError pid message) s) = timers s"
    and "length (commands (step L (EmitError pid message) s)) = length (commands s)"
    and "ffmpegProcesses (step L (EmitError pid message) s) = ffmpegProcesses s"
  using assms by (simp_all add: step_def emit_error_def Let_def)

text \<open>
  C6. In every reachable state, the retries spawned or scheduled for an ingest artifact
  never outnumber the failures of its first-generation encoders. A failure of such an
  encoder while the key is registered schedules exactly one backoff timer, of 2000 ms,
  and spawns nothing by itself; without the key it schedules nothing. When the backoff
  timer fires and the key is registered, exactly one retry command is spawned and
  registered; when the key is gone, only the timer disappears. The retry command has no
  \<open>'error'\<close> listener: its failure schedules no timer and spawns no command.
\<close>

theorem encoder_restarted_once:
  assumes "s = run L (init_server fs ds) es"
  shows "retry_count s p + backoff_count s p \<le> live_failures s p
       \<and> (\<not> crashed s \<and> pid < length (commands s) \<and> cmd_state (commands s ! pid) = Running
            \<and> on_error (commands s ! pid) = Some (LiveError k inp rp out) \<longrightarrow>
            (has (activeStreams s) k \<longrightarrow>
               timers (step L (EmitError pid message) s) = timers s @ [(2000, Backoff k inp rp out)])
            \<and> (\<not> has (activeStreams s) k \<longrightarrow> timers (step L (EmitError pid message) s) = timers s)
            \<and> length (commands (step L (EmitError pid message) s)) = length (commands s)
            \<and> cmd_state (commands (step L (EmitError pid message) s) ! pid) = Failed
            \<and> \<not> crashed (step L (EmitError pid message) s))
       \<and> (\<not> crashed s \<and> i < length (timers s) \<and> snd (timers s ! i) = Backoff k inp rp out \<longrightarrow>
            (has (activeStreams s) k \<longrightarrow>
               commands (step L (TimerFire i) s)
               = commands s @ [\<lparr>cmd_input = inp, cmd_output = out, on_error = None, on_end = None,
                                 cmd_state = Running, cmd_signalled = False\<rparr>]
               \<and> ffmpegProcesses (step L (TimerFire i) s)
                 = AList.update k (length (commands s)) (ffmpegProcesses s))
            \<and> (\<not> has (activeStreams s) k \<longrightarrow>
                 step L (TimerFire i) s = s\<lparr>timers := take i (timers s) @ drop (Suc i) (timers s)\<rparr>)
            \<and> timers (step L (TimerFire i) s) = take i (timers s) @ drop (Suc i) (timers s))
       \<and> (pid < length (commands s) \<and> on_error (commands s ! pid) = None \<longrightarrow>
            timers (step L (EmitError pid message) s) = timers s
            \<and> length (commands (step L (EmitError pid message) s)) = length (commands s)
            \<and> ffmpegProcesses (step L (EmitError pid message) s) = ffmpegProcesses s)"
proof -
  have "restart_budget s p"
    unfolding assms by (rule budget_reachable)
  then have one: "retry_count s p + backoff_count s p \<le> live_failures s p"
    by (simp add: restart_budget_def)
  have two: "(has (activeStreams s) k \<longrightarrow>
               timers (step L (EmitError pid message) s) = timers s @ [(2000, Backoff k inp rp out)])
            \<and> (\<not> has (activeStreams s) k \<longrightarrow> timers (step L (EmitError pid message) s) = timers s)
            \<and> length (commands (step L (EmitError pid message) s)) = length (commands s)
            \<and> cmd_state (commands (step L (EmitError pid message) s) ! pid) = Failed
            \<and> \<not> crashed (step L (EmitError pid message) s)"
    if "\<not> crashed s" "pid < length (commands s)" "cmd_state (commands s ! pid) = Running"
      "on_error (commands s ! pid) = Some (LiveError k inp rp out)"
    using live_error_schedules_backoff[OF that] by simp
  have three: "(has (activeStreams s) k \<longrightarrow>
               commands (step L (TimerFire i) s)
               = commands s @ [\<lparr>cmd_input = inp, cmd_output = out, on_error = None, on_end = None,
                                 cmd_state = Running, cmd_signalled = False\<rparr>]
               \<and> ffmpegProcesses (step L (TimerFire i) s)
                 = AList.update k (length (commands s)) (ffmpegProcesses s))
            \<and> (\<not> has (activeStreams s) k \<longrightarrow>
                 step L (TimerFire i) s = s\<lparr>timers := take i (timers s) @ drop (Suc i) (timers s)\<rparr>)
            \<and> timers (step L (TimerFire i) s) = take i (timers s) @ drop (Suc i) (timers s)"
    if "\<not> crashed s" "i < length (timers s)" "snd (timers s ! i) = Backoff k inp rp out"
    using backoff_fires[OF that] by simp
  have four: "timers (step L (EmitError pid message) s) = timers s
            \<and> length (commands (step L (EmitError pid message) s)) = length (commands s)
            \<and> ffmpegProcesses (step L (EmitError pid message) s) = ffmpegProcesses s"
    if "pid < length (commands s)" "on_error (commands s ! pid) = None"
    using retry_error_terminal[OF that] by simp
  from two have two': "\<not> crashed s \<and> pid < length (commands s) \<and> cmd_state (commands s ! pid) = Running
            \<and> on_error (commands s ! pid) = Some (LiveError k inp rp out) \<longrightarrow>
            (has (activeStreams s) k \<longrightarrow>
               timers (step L (EmitError pid message) s) = timers s @ [(2000, Backoff k inp rp out)])
            \<and> (\<not> has (activeStreams s) k \<longrightarrow> timers (step L (EmitError pid message) s) = timers s)
            \<and> length (commands (step L (EmitError pid message) s)) = length (commands s)
            \<and> cmd_state (commands (step L (EmitError pid message) s) ! pid) = Failed
            \<and> \<not> crashed (step L (EmitError pid message) s)"
    by blast
  from three have three': "\<not> crashed s \<and> i < length (timers s) \<and> snd (timers s ! i) = Backoff k inp rp out \<longrightarrow>
            (has (activeStreams s) k \<longrightarrow>
               commands (step L (TimerFire i) s)
               = commands s @ [\<lparr>cmd_input = inp, cmd_output = out, on_error = None, on_end = None,
                                 cmd_state = Running, cmd_signalled = False\<rparr>]
               \<and> ffmpegProcesses (step L (TimerFire i) s)
                 = AList.update k (length (commands s)) (ffmpegProcesses s))
            \<and> (\<not> has (activeStreams s) k \<longrightarrow>
                 step L (TimerFire i) s = s\<lparr>timers := take i (timers s) @ drop (Suc i) (timers s)\<rparr>)
            \<and> timers (step L (TimerFire i) s) = take i (timers s) @ drop (Suc i) (timers s)"
    by blast
  from four have four': "pid < length (commands s) \<and> on_error (commands s ! pid) = None \<longrightarrow>
            timers (step L (EmitError pid message) s) = timers s
            \<and> length (commands (step L (EmitError pid message) s)) = length (commands s)
            \<and> ffmpegProcesses (step L (EmitError pid message) s) = ffmpegProcesses s"
    by blast
  from one two' three' four' show ?thesis by (intro conjI)
qed

theorem encoder_restarted_once_witness:
  "\<not> crashed (run node_lib (init_server [] []) encoder_started)
   \<and> cmd_state (commands (run node_lib (init_server [] []) encoder_started) ! 0) = Running
   \<and> has (activeStreams (run node_lib (init_server [] []) encoder_started)) ''u1_5''
   \<and> timers (step node_lib (EmitError 0 ''boom'') (run node_lib (init_server [] []) encoder_started))
      = [(2000, Backoff ''u1_5'' ''/app/recordings/u1_5/input.webm'' ''/app/recordings/u1_5''
                  ''/app/recordings/u1_5/playlist.m3u8'')]
   \<and> length (commands (step node_lib (EmitError 0 ''boom'')
        (run node_lib (init_server [] []) encoder_started))) = 1
   \<and> has (activeStreams (run node_lib (init_server [] []) encoder_failed)) ''u1_5''
   \<and> commands (step node_lib (TimerFire 0) (run node_lib (init_server [] []) encoder_failed))
      = commands (run node_lib (init_server [] []) encoder_failed)
        @ [\<lparr>cmd_input = ''/app/recordings/u1_5/input.webm'',
            cmd_output = ''/app/recordings/u1_5/playlist.m3u8'', on_error = None, on_end = None,
            cmd_state = Running, cmd_signalled = False\<rparr>]
   \<and> \<not> has (activeStreams (run node_lib (init_server [] []) session_gone)) ''u1_5''
   \<and> commands (step node_lib (TimerFire 0) (run node_lib (init_server [] []) session_gone))
      = commands (run node_lib (init_server [] []) session_gone)
   \<and> on_error (commands (run node_lib (init_server [] []) encoder_retried) ! 1) = None
   \<and> timers (step node_lib (EmitError 1 ''boom'') (run node_lib (init_server [] []) encoder_retried)) = []
   \<and> length (commands (step node_lib (EmitError 1 ''boom'')
        (run node_lib (init_server [] []) encoder_retried))) = 2
   \<and> retry_count (run node_lib (init_server [] []) encoder_retried) ''/app/recordings/u1_5/input.webm'' = 1
   \<and> live_failures (run node_lib (init_server [] []) encoder_retried) ''/app/recordings/u1_5/input.webm'' = 1"
proof -
  let ?s1 = "run node_lib (init_server [] []) encoder_started"
  let ?s2 = "run node_lib (init_server [] []) encoder_failed"
  let ?s2' = "run node_lib (init_server [] []) session_gone"
  let ?s3 = "run node_lib (init_server [] []) encoder_retried"
  let ?inp = "''/app/recordings/u1_5/input.webm''"
  let ?rp = "''/app/recordings/u1_5''"
  let ?out = "''/app/recordings/u1_5/playlist.m3u8''"
  have h1: "\<not> crashed ?s1" "0 < length (commands ?s1)" "cmd_state (commands ?s1 ! 0) = Running"
    "on_error (commands ?s1 ! 0) = Some (LiveError ''u1_5'' ?inp ?rp ?out)"
    "has (activeStreams ?s1) ''u1_5''" "timers ?s1 = []" "length (commands ?s1) = 1"
    by code_simp+
  have h2: "\<not> crashed ?s2" "0 < length (timers ?s2)"
    "snd (timers ?s2 ! 0) = Backoff ''u1_5'' ?inp ?rp ?out" "has (activeStreams ?s2) ''u1_5''"
    by code_simp+
  have h2': "\<not> crashed ?s2'" "0 < length (timers ?s2')"
    "snd (timers ?s2' ! 0) = Backoff ''u1_5'' ?inp ?rp ?out" "\<not> has (activeStreams ?s2') ''u1_5''"
    by code_simp+
  have h3: "1 < length (commands ?s3)" "on_error (commands ?s3 ! 1) = None" "timers ?s3 = []"
    "length (commands ?s3) = 2" "retry_count ?s3 ?inp = 1" "live_failures ?s3 ?inp = 1"
    by code_simp+
  note t1 = encoder_restarted_once[of ?s1 node_lib "[]" "[]" encoder_started ?inp 0 "''u1_5''"
      ?inp ?rp ?out "''boom''" 0]
  note t2 = encoder_restarted_once[of ?s2 node_lib "[]" "[]" encoder_failed ?inp 0 "''u1_5''"
      ?inp ?rp ?out "''boom''" 0]
  note t2' = encoder_restarted_once[of ?s2' node_lib "[]" "[]" session_gone ?inp 0 "''u1_5''"
      ?inp ?rp ?out "''boom''" 0]
  note t3 = encoder_restarted_once[of ?s3 node_lib "[]" "[]" encoder_retried ?inp 1 "''u1_5''"
      ?inp ?rp ?out "''boom''" 0]
  have a: "timers (step node_lib (EmitError 0 ''boom'') ?s1) = [(2000, Backoff ''u1_5'' ?inp ?rp ?out)]"
    "length (commands (step node_lib (EmitError 0 ''boom'') ?s1)) = 1"
    using t1 h1 by simp_all
  have b: "commands (step node_lib (TimerFire 0) ?s2)
      = commands ?s2 @ [\<lparr>cmd_input = ?inp, cmd_output = ?out, on_error = None, on_end = None,
            cmd_state = Running, cmd_signalled = False\<rparr>]"
    using t2 h2 by simp
  have c: "commands (step node_lib (TimerFire 0) ?s2') = commands ?s2'"
    using t2' h2' by simp
  have d: "timers (step node_lib (EmitError 1 ''boom'') ?s3) = []"
    "length (commands (step node_lib (EmitError 1 ''boom'') ?s3)) = 2"
    using t3 h3 by simp_all
  from a b c d h1 h2 h2' h3 show ?thesis by simp
qed

end
